theory Spec2Isabelle
  imports Complex_Main
begin

section \<open>Python values, exceptions and library objects\<close>

text \<open>
  The service is a Flask application (\<^verbatim>\<open>main.py\<close>) and a provisioning script
  (\<^verbatim>\<open>download_model.py\<close>). Both are thin glue over third-party libraries, so the
  embedding keeps every library call as a parameter whose outcome is either a value or
  a raised exception, and models the repository's own control flow around those calls.

  A value decoded by \<^verbatim>\<open>request.get_json\<close> is a Python \<^verbatim>\<open>None\<close>, \<^verbatim>\<open>bool\<close>,
  \<^verbatim>\<open>int\<close>, \<^verbatim>\<open>float\<close>, \<^verbatim>\<open>str\<close>, \<^verbatim>\<open>list\<close> or \<^verbatim>\<open>dict\<close>. A dict is an
  association list; a Python dict has each key once, and lookup takes the first entry.
  Floating-point numbers are idealised as reals: the only arithmetic the repository
  itself performs on them is the subtraction \<^verbatim>\<open>1 - similarities\<close>.
\<close>

datatype json =
    JNull
  | JBool bool
  | JInt int
  | JFloat real
  | JStr string
  | JArr "json list"
  | JObj "(string \<times> json) list"

text \<open>
  An exception carries the text that \<^verbatim>\<open>str(e)\<close> yields. \<open>BadRequest\<close> is werkzeug's
  exception, which the handler catches separately; \<open>Exception\<close> stands for any other
  subclass of Python's \<^verbatim>\<open>Exception\<close> raised inside a library.
\<close>

datatype py_exception =
    BadRequest string
  | TypeError string
  | IndexError string
  | KeyError string
  | Exception string

fun str :: "py_exception \<Rightarrow> string" where
  "str (BadRequest m) = m"
| "str (TypeError m) = m"
| "str (IndexError m) = m"
| "str (KeyError m) = m"
| "str (Exception m) = m"

fun type_name :: "json \<Rightarrow> string" where
  "type_name JNull = ''NoneType''"
| "type_name (JBool b) = ''bool''"
| "type_name (JInt i) = ''int''"
| "type_name (JFloat x) = ''float''"
| "type_name (JStr s) = ''str''"
| "type_name (JArr xs) = ''list''"
| "type_name (JObj kvs) = ''dict''"

text \<open>\<^verbatim>\<open>needle in haystack\<close> on two Python strings: substring test.\<close>

fun str_contains :: "string \<Rightarrow> string \<Rightarrow> bool" where
  "str_contains needle [] = (needle = [])"
| "str_contains needle (c # cs) =
     (take (length needle) (c # cs) = needle \<or> str_contains needle cs)"

text \<open>
  \<^verbatim>\<open>key in data\<close> for a string key: key membership on a dict, element membership on a
  list, substring test on a string, and \<^verbatim>\<open>TypeError\<close> on a value that is not a
  container (wording of CPython up to 3.13).
\<close>

fun py_in :: "string \<Rightarrow> json \<Rightarrow> py_exception + bool" where
  "py_in key (JObj kvs) = Inr (key \<in> set (map fst kvs))"
| "py_in key (JArr xs) = Inr (JStr key \<in> set xs)"
| "py_in key (JStr s) = Inr (str_contains key s)"
| "py_in key v =
     Inl (TypeError (''argument of type '' @ [CHR 0x27] @ type_name v @ [CHR 0x27] @ '' is not iterable''))"

text \<open>
  \<^verbatim>\<open>data[key]\<close> for a string key: the value on a dict (\<^verbatim>\<open>KeyError\<close> when absent), and
  \<^verbatim>\<open>TypeError\<close> on a list, a string or any other value (wording of CPython 3.11+).
\<close>

fun py_getitem :: "json \<Rightarrow> string \<Rightarrow> py_exception + json" where
  "py_getitem (JObj kvs) key =
     (case map_of kvs key of
        Some v \<Rightarrow> Inr v
      | None \<Rightarrow> Inl (KeyError ([CHR 0x27] @ key @ [CHR 0x27])))"
| "py_getitem (JArr xs) key =
     Inl (TypeError ''list indices must be integers or slices, not str'')"
| "py_getitem (JStr s) key =
     Inl (TypeError (''string indices must be integers, not '' @ [CHR 0x27] @ ''str'' @ [CHR 0x27]))"
| "py_getitem v key =
     Inl (TypeError ([CHR 0x27] @ type_name v @ [CHR 0x27] @ '' object is not subscriptable''))"

fun isinstance_str :: "json \<Rightarrow> bool" where
  "isinstance_str (JStr s) = True"
| "isinstance_str v = False"

fun isinstance_list :: "json \<Rightarrow> bool" where
  "isinstance_list (JArr xs) = True"
| "isinstance_list v = False"

fun items :: "json \<Rightarrow> json list" where
  "items (JArr xs) = xs"
| "items v = []"

fun text_of :: "json \<Rightarrow> string" where
  "text_of (JStr s) = s"
| "text_of v = []"

type_synonym matrix = "real list list"

text \<open>
  The loaded \<^verbatim>\<open>SentenceTransformer\<close> object, as far as the repository uses it:
  \<^verbatim>\<open>model.encode(texts, convert_to_numpy=True)\<close> returns a two-dimensional array with
  one row per text, or raises; \<^verbatim>\<open>model.save(path)\<close> writes the model under the path
  and returns nothing (\<open>None\<close>), or raises (\<open>Some e\<close>).
\<close>

record sentence_transformer =
  encode :: "string list \<Rightarrow> py_exception + matrix"
  save :: "string \<Rightarrow> py_exception option"

text \<open>
  The module globals of \<^verbatim>\<open>main.py\<close> that the request handlers read: the model
  loaded at startup and sklearn's imported \<^verbatim>\<open>cosine_similarity\<close>, which takes two
  two-dimensional arrays and returns the matrix of similarities, or raises.
\<close>

record globals =
  model :: sentence_transformer
  cosine_similarity :: "matrix \<Rightarrow> matrix \<Rightarrow> py_exception + matrix"

section \<open>The similarity endpoint\<close>

text \<open>
  A request as the handler sees it: \<^verbatim>\<open>request.is_json\<close> and the outcome of
  \<^verbatim>\<open>request.get_json(force=True)\<close>. A response is the pair that the handler returns:
  the JSON body given to \<^verbatim>\<open>jsonify\<close> and the status code.
\<close>

record request =
  is_json :: bool
  get_json :: "py_exception + json"

type_synonym response = "json \<times> nat"

definition MODEL_NAME :: string where
  "MODEL_NAME = ''all-MiniLM-L6-v2''"

definition error_body :: "string \<Rightarrow> json" where
  "error_body msg = JObj [(''error'', JStr msg)]"

definition error_details_body :: "string \<Rightarrow> string \<Rightarrow> json" where
  "error_details_body msg details = JObj [(''error'', JStr msg), (''details'', JStr details)]"

text \<open>
  Lines 61--78 of \<^verbatim>\<open>main.py\<close>: the content-type check, the parse with its two
  \<^verbatim>\<open>except\<close> clauses, and the \<^verbatim>\<open>None\<close> check. \<open>Inl\<close> is an early
  \<^verbatim>\<open>return\<close> of a response, \<open>Inr\<close> the decoded \<^verbatim>\<open>data\<close>.
\<close>

definition parse_body :: "request \<Rightarrow> response + json" where
  "parse_body request =
     (if \<not> is_json request then
        Inl (error_body ''Content-Type must be application/json'', 400)
      else
        (case get_json request of
           Inl (BadRequest m) \<Rightarrow>
             Inl (error_details_body ''Invalid JSON format'' (str (BadRequest m)), 400)
         | Inl e \<Rightarrow>
             Inl (error_details_body ''Failed to parse JSON'' (str e), 400)
         | Inr data \<Rightarrow>
             if data = JNull then
               Inl (error_body ''Request body is empty or invalid JSON'', 400)
             else Inr data))"

text \<open>
  Lines 81--87: the two presence checks and the two subscriptions. The outer \<open>Inl\<close> is an
  exception raised by \<^verbatim>\<open>in\<close> or by the subscription; the inner \<open>Inl\<close> is an early
  \<^verbatim>\<open>return\<close>; otherwise the pair \<^verbatim>\<open>(spec, candidates)\<close>.
\<close>

definition read_fields :: "json \<Rightarrow> py_exception + (response + json \<times> json)" where
  "read_fields data =
     (case py_in ''spec'' data of
        Inl e \<Rightarrow> Inl e
      | Inr False \<Rightarrow> Inr (Inl (error_body ''Missing 'spec' field'', 400))
      | Inr True \<Rightarrow>
          (case py_in ''candidates'' data of
             Inl e \<Rightarrow> Inl e
           | Inr False \<Rightarrow> Inr (Inl (error_body ''Missing 'candidates' field'', 400))
           | Inr True \<Rightarrow>
               (case py_getitem data ''spec'' of
                  Inl e \<Rightarrow> Inl e
                | Inr spec \<Rightarrow>
                    (case py_getitem data ''candidates'' of
                       Inl e \<Rightarrow> Inl e
                     | Inr candidates \<Rightarrow> Inr (Inr (spec, candidates))))))"

text \<open>
  Lines 90--99: the type checks. \<open>Inl\<close> is an early \<^verbatim>\<open>return\<close>; otherwise the
  reference text and the candidate texts, which are now known to be strings.
\<close>

definition check_types :: "json \<Rightarrow> json \<Rightarrow> response + string \<times> string list" where
  "check_types spec candidates =
     (if \<not> isinstance_str spec then
        Inl (error_body '''spec' must be a string'', 400)
      else if \<not> isinstance_list candidates then
        Inl (error_body '''candidates' must be a list'', 400)
      else if length (items candidates) = 0 then
        Inl (error_body '''candidates' list cannot be empty'', 400)
      else if \<not> list_all isinstance_str (items candidates) then
        Inl (error_body ''All items in 'candidates' must be strings'', 400)
      else Inr (text_of spec, map text_of (items candidates)))"

text \<open>
  Lines 102--114: the two encodings, the similarity matrix, its row \<^verbatim>\<open>[0]\<close>
  (\<^verbatim>\<open>IndexError\<close> on a matrix without rows), and \<^verbatim>\<open>1 - similarities\<close>. The second
  component records the library calls made, in order.
\<close>

datatype call =
    Encode "string list"
  | CosineSimilarity matrix matrix

definition compute_distances ::
  "globals \<Rightarrow> string \<Rightarrow> string list \<Rightarrow> (py_exception + real list) \<times> call list" where
  "compute_distances g spec candidates =
     (case encode (model g) [spec] of
        Inl e \<Rightarrow> (Inl e, [Encode [spec]])
      | Inr spec_embedding \<Rightarrow>
          (case encode (model g) candidates of
             Inl e \<Rightarrow> (Inl e, [Encode [spec], Encode candidates])
           | Inr candidate_embeddings \<Rightarrow>
               (let calls = [Encode [spec], Encode candidates,
                             CosineSimilarity spec_embedding candidate_embeddings]
                in case cosine_similarity g spec_embedding candidate_embeddings of
                     Inl e \<Rightarrow> (Inl e, calls)
                   | Inr [] \<Rightarrow>
                       (Inl (IndexError ''index 0 is out of bounds for axis 0 with size 0''), calls)
                   | Inr (similarities # rest) \<Rightarrow>
                       (Inr (map (\<lambda>s. 1 - s) similarities), calls))))"

text \<open>The body of the handler's outer \<^verbatim>\<open>try\<close> block (lines 60--116).\<close>

definition calculate_distances_try ::
  "globals \<Rightarrow> request \<Rightarrow> (py_exception + response) \<times> call list" where
  "calculate_distances_try g request =
     (case parse_body request of
        Inl early \<Rightarrow> (Inr early, [])
      | Inr data \<Rightarrow>
          (case read_fields data of
             Inl e \<Rightarrow> (Inl e, [])
           | Inr (Inl early) \<Rightarrow> (Inr early, [])
           | Inr (Inr (spec, candidates)) \<Rightarrow>
               (case check_types spec candidates of
                  Inl early \<Rightarrow> (Inr early, [])
                | Inr (spec_text, candidate_texts) \<Rightarrow>
                    (case compute_distances g spec_text candidate_texts of
                       (Inl e, calls) \<Rightarrow> (Inl e, calls)
                     | (Inr distances, calls) \<Rightarrow>
                         (Inr (JObj [(''distances'', JArr (map JFloat distances))], 200),
                          calls)))))"

text \<open>
  \<^verbatim>\<open>calculate_distances\<close>: the \<^verbatim>\<open>try\<close> block with its
  \<^verbatim>\<open>except Exception\<close> clause (lines 118--119). The result is the response and the
  library calls that were made while producing it.
\<close>

definition calculate_distances :: "globals \<Rightarrow> request \<Rightarrow> response \<times> call list" where
  "calculate_distances g request =
     (case calculate_distances_try g request of
        (Inl e, calls) \<Rightarrow> ((error_body (''Internal server error: '' @ str e), 500), calls)
      | (Inr r, calls) \<Rightarrow> (r, calls))"

section \<open>The health endpoint\<close>

definition health :: response where
  "health = (JObj [(''status'', JStr ''healthy''), (''model'', JStr ''all-MiniLM-L6-v2'')], 200)"

section \<open>The running service\<close>

text \<open>
  The two routes registered on the Flask application. Neither handler assigns a module
  global, so serving a request leaves the globals as they were; \<open>serve\<close> threads them
  through explicitly and \<open>serve_all\<close> handles a sequence of requests in order.
\<close>

datatype http_request =
    POST_calculate_distances request
  | GET_health

fun serve :: "globals \<Rightarrow> http_request \<Rightarrow> response \<times> globals" where
  "serve g (POST_calculate_distances request) = (fst (calculate_distances g request), g)"
| "serve g GET_health = (health, g)"

fun serve_all :: "globals \<Rightarrow> http_request list \<Rightarrow> response list \<times> globals" where
  "serve_all g [] = ([], g)"
| "serve_all g (r # rs) =
     (case serve g r of
        (resp, g') \<Rightarrow> (case serve_all g' rs of (resps, g'') \<Rightarrow> (resp # resps, g'')))"

text \<open>The keys of a JSON object.\<close>

fun keys :: "json \<Rightarrow> string list" where
  "keys (JObj kvs) = map fst kvs"
| "keys v = []"

section \<open>Paths and the process environment\<close>

text \<open>
  \<^verbatim>\<open>os.path.join\<close> and \<^verbatim>\<open>os.path.dirname\<close> as \<^verbatim>\<open>posixpath\<close> defines them.
\<close>

definition os_path_join :: "string \<Rightarrow> string \<Rightarrow> string" where
  "os_path_join a b =
     (if take 1 b = ''/'' then b
      else if a = [] \<or> last a = CHR ''/'' then a @ b
      else a @ ''/'' @ b)"

definition os_path_dirname :: "string \<Rightarrow> string" where
  "os_path_dirname p =
     (let head = rev (dropWhile (\<lambda>c. c \<noteq> CHR ''/'') (rev p))
      in if head \<noteq> [] \<and> \<not> list_all (\<lambda>c. c = CHR ''/'') head
         then rev (dropWhile (\<lambda>c. c = CHR ''/'') (rev head))
         else head)"

text \<open>
  \<^verbatim>\<open>str.lower\<close> on the ASCII letters. On other characters Python's method differs,
  but no character other than \<^verbatim>\<open>Y\<close> is lowered to \<^verbatim>\<open>y\<close>, which is all the
  script's comparison depends on.
\<close>

definition lower :: "string \<Rightarrow> string" where
  "lower s =
     map (\<lambda>c. if 65 \<le> (of_char c :: nat) \<and> (of_char c :: nat) \<le> 90
              then char_of ((of_char c :: nat) + 32) else c) s"

text \<open>
  What both programs find around them: the directory of the source file
  (\<^verbatim>\<open>os.path.dirname(__file__)\<close>), which paths exist when the program starts, the
  outcome of \<^verbatim>\<open>os.makedirs(path, exist_ok=True)\<close>, the outcome of constructing
  \<^verbatim>\<open>SentenceTransformer(name_or_path)\<close>, and what \<^verbatim>\<open>input(prompt)\<close> returns.
  Neither program creates or removes the cache directory before it tests for it, so one
  \<open>os_path_exists\<close> answers every test.
\<close>

record os_env =
  here :: string
  os_path_exists :: "string \<Rightarrow> bool"
  os_makedirs :: "string \<Rightarrow> py_exception option"
  SentenceTransformer :: "string \<Rightarrow> py_exception + sentence_transformer"
  input :: "string \<Rightarrow> py_exception + string"

text \<open>What a program does to the outside, in order.\<close>

datatype event =
    Print string
  | Makedirs string
  | Input string
  | Load string
  | Save string

fun is_Print :: "event \<Rightarrow> bool" where
  "is_Print (Print s) = True"
| "is_Print e = False"

definition MODEL_HUGGINGFACE :: string where
  "MODEL_HUGGINGFACE = ''sentence-transformers/'' @ MODEL_NAME"

definition MODEL_DIR :: "os_env \<Rightarrow> string" where
  "MODEL_DIR env = os_path_join (os_path_join (here env) ''models'') MODEL_NAME"

section \<open>Service startup\<close>




section \<open>The provisioning script\<close>

text \<open>
  Lines 27--36 of \<^verbatim>\<open>download_model.py\<close>: fetch from the registry and save. The
  function has no \<^verbatim>\<open>return\<close> statement with a value, so what it returns is Python's
  \<^verbatim>\<open>None\<close>, written \<open>None\<close> here; \<open>Some path\<close> would be a returned path.
\<close>

definition fetch_and_save :: "os_env \<Rightarrow> (py_exception + string option) \<times> event list" where
  "fetch_and_save env =
     (let evs = [Print ''Loading model from HuggingFace...'', Load MODEL_HUGGINGFACE]
      in case SentenceTransformer env MODEL_HUGGINGFACE of
           Inl e \<Rightarrow> (Inl e, evs)
         | Inr m \<Rightarrow>
             (let evs = evs @ [Print (''Saving model to: '' @ MODEL_DIR env), Save (MODEL_DIR env)]
              in case save m (MODEL_DIR env) of
                   Some e \<Rightarrow> (Inl e, evs)
                 | None \<Rightarrow>
                     (Inr None,
                      evs @ [Print ''Model downloaded and saved successfully!'',
                             Print (''Model location: '' @ MODEL_DIR env)])))"

text \<open>\<^verbatim>\<open>download_model()\<close>, lines 11--36.\<close>

definition download_model :: "os_env \<Rightarrow> (py_exception + string option) \<times> event list" where
  "download_model env =
     (let evs = [Print (''Downloading model: '' @ MODEL_HUGGINGFACE),
                 Print (''Target directory: '' @ MODEL_DIR env),
                 Makedirs (os_path_dirname (MODEL_DIR env))]
      in case os_makedirs env (os_path_dirname (MODEL_DIR env)) of
           Some e \<Rightarrow> (Inl e, evs)
         | None \<Rightarrow>
             if os_path_exists env (MODEL_DIR env) then
               (let evs = evs @ [Print (''Model already exists at: '' @ MODEL_DIR env),
                                 Input ''Do you want to re-download? (y/n): '']
                in case input env ''Do you want to re-download? (y/n): '' of
                     Inl e \<Rightarrow> (Inl e, evs)
                   | Inr response \<Rightarrow>
                       if lower response \<noteq> ''y'' then
                         (Inr None, evs @ [Print ''Skipping download.''])
                       else
                         (case fetch_and_save env of (r, evs') \<Rightarrow> (r, evs @ evs')))
             else
               (case fetch_and_save env of (r, evs') \<Rightarrow> (r, evs @ evs')))"

text \<open>The events other than printing: prompts, directory creation, loads and saves.\<close>

definition effects :: "event list \<Rightarrow> event list" where
  "effects evs = filter (\<lambda>e. \<not> is_Print e) evs"

section \<open>What the service relies on from its libraries\<close>

text \<open>
  The handler indexes and returns what the libraries give it, so statements about the
  shape and meaning of its output need the libraries' documented behaviour:
  \<^verbatim>\<open>encode\<close> returns one row per input text, in input order, and
  \<^verbatim>\<open>cosine_similarity(X, Y)\<close> returns the matrix with one row per row of \<open>X\<close> and one
  column per row of \<open>Y\<close>, whose entry at row \<open>i\<close>, column \<open>j\<close> is the similarity
  \<open>sim\<close> of row \<open>i\<close> of \<open>X\<close> and row \<open>j\<close> of \<open>Y\<close>.
\<close>

definition encode_one_row_per_text :: "sentence_transformer \<Rightarrow> bool" where
  "encode_one_row_per_text m =
     (\<forall>texts E. encode m texts = Inr E \<longrightarrow> length E = length texts)"

definition similarity_matrix_shape :: "globals \<Rightarrow> bool" where
  "similarity_matrix_shape g =
     (\<forall>X Y K. cosine_similarity g X Y = Inr K \<longrightarrow>
        length K = length X \<and> list_all (\<lambda>row. length row = length Y) K)"


text \<open>
  A stand-in model and similarity routine for concrete evaluation: the stand-in embeds
  the empty text as the unit vector (1, 0) and every other text as (0, 1), and takes the
  dot product as the similarity of two rows. It only serves to instantiate the general
  theorems at concrete requests.
\<close>

definition stub_model :: sentence_transformer where
  "stub_model =
     \<lparr>encode = (\<lambda>texts. Inr (map (\<lambda>t. if t = [] then [1, 0] else [0, 1]) texts)),
      save = (\<lambda>path. None)\<rparr>"

definition stub_similarity :: "real list \<Rightarrow> real list \<Rightarrow> real" where
  "stub_similarity x y = sum_list (map2 (*) x y)"

definition stub_globals :: globals where
  "stub_globals =
     \<lparr>model = stub_model,
      cosine_similarity = (\<lambda>X Y. Inr (map (\<lambda>x. map (stub_similarity x) Y) X))\<rparr>"

text \<open>
  The request \<^verbatim>\<open>{"spec": "a", "candidates": ["a", ""]}\<close> with a JSON content type.
\<close>

definition example_request :: request where
  "example_request =
     \<lparr>is_json = True,
      get_json =
        Inr (JObj [(''spec'', JStr ''a''), (''candidates'', JArr [JStr ''a'', JStr []])])\<rparr>"

text \<open>Globals whose model raises on every call of \<^verbatim>\<open>encode\<close>.\<close>

definition failing_globals :: globals where
  "failing_globals =
     \<lparr>model = \<lparr>encode = (\<lambda>texts. Inl (Exception ''model failure'')), save = (\<lambda>path. None)\<rparr>,
      cosine_similarity = (\<lambda>X Y. Inr (map (\<lambda>x. map (stub_similarity x) Y) X))\<rparr>"

text \<open>
  Three environments under \<^verbatim>\<open>/app\<close>: one where every path exists and the operator
  gives a fixed answer, one where no path exists, and one where no path exists and the
  registry cannot be reached.
\<close>

definition cached_env :: "string \<Rightarrow> os_env" where
  "cached_env answer =
     \<lparr>here = ''/app'', os_path_exists = (\<lambda>p. True), os_makedirs = (\<lambda>p. None),
      SentenceTransformer = (\<lambda>name. Inr stub_model), input = (\<lambda>prompt. Inr answer)\<rparr>"

definition fresh_env :: os_env where
  "fresh_env =
     \<lparr>here = ''/app'', os_path_exists = (\<lambda>p. False), os_makedirs = (\<lambda>p. None),
      SentenceTransformer = (\<lambda>name. Inr stub_model), input = (\<lambda>prompt. Inr [])\<rparr>"

definition offline_env :: os_env where
  "offline_env =
     \<lparr>here = ''/app'', os_path_exists = (\<lambda>p. False), os_makedirs = (\<lambda>p. None),
      SentenceTransformer = (\<lambda>name. Inl (Exception ''no network'')),
      input = (\<lambda>prompt. Inr [])\<rparr>"

section \<open>The validation order in the words of the specification\<close>

text \<open>
  The nine checks as the specification lists them: content type, parse, non-null,
  \<^verbatim>\<open>spec\<close> present, \<^verbatim>\<open>candidates\<close> present, \<^verbatim>\<open>spec\<close> a string,
  \<^verbatim>\<open>candidates\<close> a list, the list non-empty, every element a string. Only a JSON
  object has fields. \<open>first_failing_check\<close> is the number of the first check that a
  request fails, and \<open>check_error\<close> the message that the handler has for a check (for
  the second check, the message for werkzeug's \<^verbatim>\<open>BadRequest\<close>; any other exception
  gets ``Failed to parse JSON'').
\<close>

fun field :: "json \<Rightarrow> string \<Rightarrow> json option" where
  "field (JObj kvs) key = map_of kvs key"
| "field v key = None"

definition first_failing_check :: "request \<Rightarrow> nat option" where
  "first_failing_check request =
     (if \<not> is_json request then Some 1
      else
        (case get_json request of
           Inl e \<Rightarrow> Some 2
         | Inr data \<Rightarrow>
             if data = JNull then Some 3
             else
               (case field data ''spec'' of
                  None \<Rightarrow> Some 4
                | Some spec \<Rightarrow>
                    (case field data ''candidates'' of
                       None \<Rightarrow> Some 5
                     | Some candidates \<Rightarrow>
                         if \<not> isinstance_str spec then Some 6
                         else if \<not> isinstance_list candidates then Some 7
                         else if items candidates = [] then Some 8
                         else if \<not> list_all isinstance_str (items candidates) then Some 9
                         else None))))"

definition check_error :: "nat \<Rightarrow> string" where
  "check_error n =
     (if n = 1 then ''Content-Type must be application/json''
      else if n = 2 then ''Invalid JSON format''
      else if n = 3 then ''Request body is empty or invalid JSON''
      else if n = 4 then ''Missing 'spec' field''
      else if n = 5 then ''Missing 'candidates' field''
      else if n = 6 then '''spec' must be a string''
      else if n = 7 then '''candidates' must be a list''
      else if n = 8 then '''candidates' list cannot be empty''
      else ''All items in 'candidates' must be strings'')"

section \<open>Serving leaves the globals unchanged\<close>

lemma serve_globals: "snd (serve g r) = g"
  by (cases r) simp_all

lemma serve_all_globals: "snd (serve_all g rs) = g"
proof (induction rs arbitrary: g)
  case Nil
  show ?case by simp
next
  case (Cons r rs)
  have "snd (serve g r) = g" by (rule serve_globals)
  then obtain resp where s: "serve g r = (resp, g)" by (cases "serve g r") simp
  from Cons.IH [of g] obtain resps where t: "serve_all g rs = (resps, g)"
    by (cases "serve_all g rs") simp
  show ?case by (simp add: s t)
qed

section \<open>Malformed JSON\<close>

text \<open>
  Claim C5. When the content type is JSON and \<^verbatim>\<open>get_json\<close> raises, whatever the
  exception, the handler answers 400 (never 500) with an error body whose
  \<^verbatim>\<open>details\<close> field carries the text of the parse error: under the message
  ``Invalid JSON format'' for werkzeug's \<^verbatim>\<open>BadRequest\<close> and ``Failed to parse JSON''
  for any other exception. No library call is made.
\<close>

theorem malformed_json_is_400:
  assumes "is_json request" and "get_json request = Inl e"
  shows "calculate_distances g request =
           ((error_details_body
               (case e of BadRequest m \<Rightarrow> ''Invalid JSON format'' | _ \<Rightarrow> ''Failed to parse JSON'')
               (str e), 400), [])"
  using assms
  by (cases e) (simp_all add: calculate_distances_def calculate_distances_try_def parse_body_def)

theorem malformed_json_is_400_witness:
  "is_json \<lparr>is_json = True, get_json = Inl (BadRequest ''400 Bad Request: bad body'')\<rparr> \<and>
   get_json \<lparr>is_json = True, get_json = Inl (BadRequest ''400 Bad Request: bad body'')\<rparr> =
     Inl (BadRequest ''400 Bad Request: bad body'') \<and>
   calculate_distances stub_globals
       \<lparr>is_json = True, get_json = Inl (BadRequest ''400 Bad Request: bad body'')\<rparr> =
     ((JObj [(''error'', JStr ''Invalid JSON format''),
             (''details'', JStr ''400 Bad Request: bad body'')], 400), [])"
  using malformed_json_is_400
    [of "\<lparr>is_json = True, get_json = Inl (BadRequest ''400 Bad Request: bad body'')\<rparr>"
        "BadRequest ''400 Bad Request: bad body''" stub_globals]
  by (simp add: error_details_body_def)

section \<open>Health\<close>

text \<open>
  Claim C7. After any sequence of earlier requests, \<^verbatim>\<open>GET /health\<close> answers 200 with
  the body \<^verbatim>\<open>{"status": "healthy", "model": "all-MiniLM-L6-v2"}\<close>, whose model field
  is the name \<^verbatim>\<open>MODEL_NAME\<close> of the model that the service loads, and the globals
  after the call are the globals the service started with.
\<close>

theorem health_always_healthy:
  "serve (snd (serve_all g history)) GET_health =
     ((JObj [(''status'', JStr ''healthy''), (''model'', JStr MODEL_NAME)], 200), g)"
  by (simp add: serve_all_globals health_def MODEL_NAME_def)

section \<open>Valid requests\<close>

text \<open>
  A valid request has a JSON content type and a body that decodes to an object whose
  \<^verbatim>\<open>spec\<close> is a string and whose \<^verbatim>\<open>candidates\<close> is a non-empty list of strings.
  Such a request passes every check and its two texts reach \<open>compute_distances\<close>.
\<close>

lemma valid_request_computes:
  assumes "is_json request" and "get_json request = Inr (JObj kvs)"
    and "map_of kvs ''spec'' = Some (JStr spec)"
    and "map_of kvs ''candidates'' = Some (JArr (map JStr candidates))"
    and "candidates \<noteq> []"
  shows "calculate_distances_try g request =
           (case compute_distances g spec candidates of
              (Inl e, calls) \<Rightarrow> (Inl e, calls)
            | (Inr distances, calls) \<Rightarrow>
                (Inr (JObj [(''distances'', JArr (map JFloat distances))], 200), calls))"
proof -
  have p: "parse_body request = Inr (JObj kvs)"
    using assms(1,2) by (simp add: parse_body_def)
  have k1: "''spec'' \<in> set (map fst kvs)"
    using map_of_SomeD [OF assms(3)] by force
  have k2: "''candidates'' \<in> set (map fst kvs)"
    using map_of_SomeD [OF assms(4)] by force
  have r: "read_fields (JObj kvs) = Inr (Inr (JStr spec, JArr (map JStr candidates)))"
    using k1 k2 assms(3,4) by (simp add: read_fields_def)
  have a: "list_all isinstance_str (map JStr candidates)"
    by (induction candidates) simp_all
  have t: "map text_of (map JStr candidates) = candidates"
    by (induction candidates) simp_all
  have c: "check_types (JStr spec) (JArr (map JStr candidates)) = Inr (spec, candidates)"
    using assms(5) a t by (simp add: check_types_def)
  show ?thesis
    by (simp add: calculate_distances_try_def p r c)
qed

lemma compute_distances_ok:
  assumes "encode (model g) [spec] = Inr S" and "encode (model g) candidates = Inr C"
    and "cosine_similarity g S C = Inr (row # rest)"
  shows "compute_distances g spec candidates =
           (Inr (map (\<lambda>s. 1 - s) row),
            [Encode [spec], Encode candidates, CosineSimilarity S C])"
  using assms by (simp add: compute_distances_def)

lemma compute_distances_first_call:
  "take 1 (snd (compute_distances g spec candidates)) = [Encode [spec]]"
  by (simp add: compute_distances_def Let_def split: sum.splits list.splits)

lemma valid_request_ok:
  assumes "is_json request" and "get_json request = Inr (JObj kvs)"
    and "map_of kvs ''spec'' = Some (JStr spec)"
    and "map_of kvs ''candidates'' = Some (JArr (map JStr candidates))"
    and "candidates \<noteq> []"
    and "encode (model g) [spec] = Inr S" and "encode (model g) candidates = Inr C"
    and "cosine_similarity g S C = Inr (row # rest)"
  shows "calculate_distances g request =
           ((JObj [(''distances'', JArr (map JFloat (map (\<lambda>s. 1 - s) row)))], 200),
            [Encode [spec], Encode candidates, CosineSimilarity S C])"
  by (simp add: calculate_distances_def valid_request_computes [OF assms(1-5)]
        compute_distances_ok [OF assms(6-8)])

lemma valid_request_raises:
  assumes "is_json request" and "get_json request = Inr (JObj kvs)"
    and "map_of kvs ''spec'' = Some (JStr spec)"
    and "map_of kvs ''candidates'' = Some (JArr (map JStr candidates))"
    and "candidates \<noteq> []"
    and "fst (compute_distances g spec candidates) = Inl e"
  shows "fst (calculate_distances g request) =
           (error_body (''Internal server error: '' @ str e), 500)"
proof -
  obtain calls where "compute_distances g spec candidates = (Inl e, calls)"
    using assms(6) by (cases "compute_distances g spec candidates") simp
  then show ?thesis
    by (simp add: calculate_distances_def valid_request_computes [OF assms(1-5)])
qed

lemma shape_single_row:
  assumes "encode_one_row_per_text (model g)" and "similarity_matrix_shape g"
    and "encode (model g) [spec] = Inr S" and "encode (model g) candidates = Inr C"
    and "cosine_similarity g S C = Inr K"
  shows "\<exists>row. K = [row] \<and> length row = length candidates"
proof -
  have s: "length S = 1"
    using assms(1,3) by (auto simp: encode_one_row_per_text_def)
  have c: "length C = length candidates"
    using assms(1,4) by (auto simp: encode_one_row_per_text_def)
  have k: "length K = length S \<and> list_all (\<lambda>row. length row = length C) K"
    using assms(2,5) unfolding similarity_matrix_shape_def by blast
  from k s obtain row where r: "K = [row]"
    by (cases K) auto
  with k c show ?thesis by simp
qed

section \<open>Length and order of the distances\<close>



section \<open>The value of each distance\<close>



section \<open>Failures during inference\<close>

text \<open>
  Claim C6. For a valid request, when \<^verbatim>\<open>encode\<close> raises on the reference text or on
  the candidates, or \<^verbatim>\<open>cosine_similarity\<close> raises, with exception \<open>e\<close>, the endpoint
  answers 500 with the body \<^verbatim>\<open>{"error": "Internal server error: <str(e)>"}\<close>, which
  has no \<^verbatim>\<open>distances\<close> key; the globals are unchanged, and the requests that follow
  are answered exactly as they would be had the failing request not been made.
\<close>

theorem inference_failure_is_500:
  assumes "is_json request" and "get_json request = Inr (JObj kvs)"
    and "map_of kvs ''spec'' = Some (JStr spec)"
    and "map_of kvs ''candidates'' = Some (JArr (map JStr candidates))"
    and "candidates \<noteq> []"
    and "encode (model g) [spec] = Inl e \<or>
         (\<exists>S. encode (model g) [spec] = Inr S \<and>
           (encode (model g) candidates = Inl e \<or>
            (\<exists>C. encode (model g) candidates = Inr C \<and> cosine_similarity g S C = Inl e)))"
  shows "serve g (POST_calculate_distances request) =
           ((JObj [(''error'', JStr (''Internal server error: '' @ str e))], 500), g) \<and>
         ''distances'' \<notin> set (keys (fst (fst (serve g (POST_calculate_distances request))))) \<and>
         serve_all g (POST_calculate_distances request # later) =
           ((JObj [(''error'', JStr (''Internal server error: '' @ str e))], 500)
              # fst (serve_all g later), g)"
proof -
  have "fst (compute_distances g spec candidates) = Inl e"
    using assms(6) by (auto simp: compute_distances_def)
  from valid_request_raises [OF assms(1-5) this]
  have r: "serve g (POST_calculate_distances request) =
           ((JObj [(''error'', JStr (''Internal server error: '' @ str e))], 500), g)"
    by (simp add: error_body_def)
  have "snd (serve_all g later) = g" by (rule serve_all_globals)
  then obtain resps where l: "serve_all g later = (resps, g)"
    by (cases "serve_all g later") simp
  have "serve_all g (POST_calculate_distances request # later) =
           ((JObj [(''error'', JStr (''Internal server error: '' @ str e))], 500)
              # fst (serve_all g later), g)"
    by (simp add: r l del: serve.simps)
  with r show ?thesis by simp
qed

theorem inference_failure_is_500_witness:
  "is_json example_request \<and>
   get_json example_request = Inr (JObj [(''spec'', JStr ''a''), (''candidates'', JArr [JStr ''a'', JStr []])]) \<and>
   encode (model failing_globals) [''a''] = Inl (Exception ''model failure'') \<and>
   serve failing_globals (POST_calculate_distances example_request) =
     ((JObj [(''error'', JStr ''Internal server error: model failure'')], 500),
      failing_globals) \<and>
   serve_all failing_globals [POST_calculate_distances example_request, GET_health] =
     ([(JObj [(''error'', JStr ''Internal server error: model failure'')], 500), health],
      failing_globals)"
proof -
  have 1: "is_json example_request" by (simp add: example_request_def)
  have 2: "get_json example_request = Inr (JObj [(''spec'', JStr ''a''), (''candidates'', JArr [JStr ''a'', JStr []])])"
    by (simp add: example_request_def)
  have 3: "map_of [(''spec'', JStr ''a''), (''candidates'', JArr [JStr ''a'', JStr []])] ''spec'' = Some (JStr ''a'')" by simp
  have 4: "map_of [(''spec'', JStr ''a''), (''candidates'', JArr [JStr ''a'', JStr []])] ''candidates'' = Some (JArr (map JStr [''a'', []]))" by simp
  have 5: "[''a'', []] \<noteq> []" by simp
  have 6: "encode (model failing_globals) [''a''] = Inl (Exception ''model failure'')"
    by (simp add: failing_globals_def)
  then have 7: "encode (model failing_globals) [''a''] = Inl (Exception ''model failure'') \<or>
         (\<exists>S. encode (model failing_globals) [''a''] = Inr S \<and>
           (encode (model failing_globals) [''a'', []] = Inl (Exception ''model failure'') \<or>
            (\<exists>C. encode (model failing_globals) [''a'', []] = Inr C \<and>
                 cosine_similarity failing_globals S C = Inl (Exception ''model failure''))))"
    by simp
  show ?thesis
    using 1 2 6 inference_failure_is_500 [OF 1 2 3 4 5 7, of "[GET_health]"]
    by simp
qed

section \<open>Empty strings\<close>

text \<open>
  Claim C10. A request that is valid except that its reference text is empty, or that
  some of its candidates are empty, is not answered with 400: the first thing that
  happens is the call of \<^verbatim>\<open>encode\<close> on the reference text, so every check has passed.
  When the library calls return normally (with one row per text and a matrix of the
  documented shape), the two encodings and the similarity computation take place and the
  answer is 200 with one distance per candidate.
\<close>

theorem empty_strings_are_accepted:
  assumes "is_json request" and "get_json request = Inr (JObj kvs)"
    and "map_of kvs ''spec'' = Some (JStr spec)"
    and "map_of kvs ''candidates'' = Some (JArr (map JStr candidates))"
    and "candidates \<noteq> []"
    and "spec = [] \<or> [] \<in> set candidates"
  shows "snd (fst (calculate_distances g request)) \<noteq> 400 \<and>
         take 1 (snd (calculate_distances g request)) = [Encode [spec]] \<and>
         (encode_one_row_per_text (model g) \<and> similarity_matrix_shape g \<and>
          encode (model g) [spec] = Inr S \<and> encode (model g) candidates = Inr C \<and>
          cosine_similarity g S C = Inr K \<longrightarrow>
            (\<exists>distances.
               calculate_distances g request =
                 ((JObj [(''distances'', JArr (map JFloat distances))], 200),
                  [Encode [spec], Encode candidates, CosineSimilarity S C]) \<and>
               length distances = length candidates))"
proof -
  have t: "calculate_distances_try g request =
           (case compute_distances g spec candidates of
              (Inl e, calls) \<Rightarrow> (Inl e, calls)
            | (Inr distances, calls) \<Rightarrow>
                (Inr (JObj [(''distances'', JArr (map JFloat distances))], 200), calls))"
    by (rule valid_request_computes [OF assms(1-5)])
  obtain r calls where c: "compute_distances g spec candidates = (r, calls)"
    by (cases "compute_distances g spec candidates")
  have a: "snd (fst (calculate_distances g request)) \<noteq> 400"
    by (cases r) (simp_all add: calculate_distances_def t c)
  have "snd (calculate_distances g request) = snd (compute_distances g spec candidates)"
    by (cases r) (simp_all add: calculate_distances_def t c)
  then have b: "take 1 (snd (calculate_distances g request)) = [Encode [spec]]"
    using compute_distances_first_call [of g spec candidates] by simp
  have d: "\<exists>distances.
               calculate_distances g request =
                 ((JObj [(''distances'', JArr (map JFloat distances))], 200),
                  [Encode [spec], Encode candidates, CosineSimilarity S C]) \<and>
               length distances = length candidates"
    if h: "encode_one_row_per_text (model g)" "similarity_matrix_shape g"
      "encode (model g) [spec] = Inr S" "encode (model g) candidates = Inr C"
      "cosine_similarity g S C = Inr K"
  proof -
    from shape_single_row [OF h] obtain row
      where r: "K = [row]" and l: "length row = length candidates" by blast
    have "calculate_distances g request =
          ((JObj [(''distances'', JArr (map JFloat (map (\<lambda>s. 1 - s) row)))], 200),
           [Encode [spec], Encode candidates, CosineSimilarity S C])"
      using valid_request_ok [OF assms(1-5) h(3,4)] h(5) r by simp
    then show ?thesis using l
      by (intro exI [of _ "map (\<lambda>s. 1 - s) row"]) simp
  qed
  from a b d show ?thesis by blast
qed

theorem empty_strings_are_accepted_witness:
  "is_json example_request \<and>
   get_json example_request = Inr (JObj [(''spec'', JStr ''a''), (''candidates'', JArr [JStr ''a'', JStr []])]) \<and>
   (''a'' = [] \<or> [] \<in> set [''a'', []]) \<and>
   encode_one_row_per_text (model stub_globals) \<and> similarity_matrix_shape stub_globals \<and>
   encode (model stub_globals) [''a''] = Inr [[0, 1]] \<and>
   encode (model stub_globals) [''a'', []] = Inr [[0, 1], [1, 0]] \<and>
   cosine_similarity stub_globals [[0, 1]] [[0, 1], [1, 0]] = Inr [[1, 0]] \<and>
   snd (fst (calculate_distances stub_globals example_request)) \<noteq> 400 \<and>
   take 1 (snd (calculate_distances stub_globals example_request)) = [Encode [''a'']] \<and>
   (\<exists>distances.
      calculate_distances stub_globals example_request =
        ((JObj [(''distances'', JArr (map JFloat distances))], 200),
         [Encode [''a''], Encode [''a'', []],
          CosineSimilarity [[0, 1]] [[0, 1], [1, 0]]]) \<and>
      length distances = length [''a'', []])"
proof -
  have 1: "is_json example_request" by (simp add: example_request_def)
  have 2: "get_json example_request = Inr (JObj [(''spec'', JStr ''a''), (''candidates'', JArr [JStr ''a'', JStr []])])"
    by (simp add: example_request_def)
  have 3: "map_of [(''spec'', JStr ''a''), (''candidates'', JArr [JStr ''a'', JStr []])] ''spec'' = Some (JStr ''a'')" by simp
  have 4: "map_of [(''spec'', JStr ''a''), (''candidates'', JArr [JStr ''a'', JStr []])] ''candidates'' = Some (JArr (map JStr [''a'', []]))" by simp
  have 5: "[''a'', []] \<noteq> []" by simp
  have e: "''a'' = [] \<or> [] \<in> set [''a'', []]" by simp
  have 6: "encode_one_row_per_text (model stub_globals)"
    by (auto simp: encode_one_row_per_text_def stub_globals_def stub_model_def)
  have 7: "similarity_matrix_shape stub_globals"
    by (auto simp: similarity_matrix_shape_def stub_globals_def list_all_iff)
  have 8: "encode (model stub_globals) [''a''] = Inr [[0, 1]]"
    by (simp add: stub_globals_def stub_model_def)
  have 9: "encode (model stub_globals) [''a'', []] = Inr [[0, 1], [1, 0]]"
    by (simp add: stub_globals_def stub_model_def)
  have 10: "cosine_similarity stub_globals [[0, 1]] [[0, 1], [1, 0]] = Inr [[1, 0]]"
    by (simp add: stub_globals_def stub_similarity_def)
  show ?thesis
    using 1 2 e 6 7 8 9 10
      empty_strings_are_accepted [OF 1 2 3 4 5 e, of stub_globals "[[0, 1]]"
        "[[0, 1], [1, 0]]" "[[1, 0]]"]
    by blast
qed

section \<open>The validation checks\<close>

text \<open>
  When the body decodes to a JSON object, or the request fails one of the first three
  checks otherwise than by a parse error, the handler answers the first failing check of
  the specification's list with 400 and that check's message, and calls no library. (A
  parse error is the subject of the section on malformed JSON.)
\<close>

lemma object_key_present:
  "map_of kvs key \<noteq> None \<longleftrightarrow> key \<in> set (map fst kvs)"
  by (simp add: map_of_eq_None_iff)

lemma checks_on_object:
  assumes "is_json request" and "get_json request = Inr (JObj kvs)"
    and "first_failing_check request = Some n"
  shows "calculate_distances g request = ((error_body (check_error n), 400), [])"
proof -
  have p: "parse_body request = Inr (JObj kvs)"
    using assms(1,2) by (simp add: parse_body_def)
  show ?thesis
  proof (cases "map_of kvs ''spec''")
    case None
    then have "''spec'' \<notin> set (map fst kvs)" using object_key_present [of kvs "''spec''"] by simp
    then have "read_fields (JObj kvs) = Inr (Inl (error_body ''Missing 'spec' field'', 400))"
      by (simp add: read_fields_def)
    moreover have "n = 4" using assms None by (simp add: first_failing_check_def)
    ultimately show ?thesis
      by (simp add: calculate_distances_def calculate_distances_try_def p check_error_def)
  next
    case s: (Some spec)
    then have ks: "''spec'' \<in> set (map fst kvs)"
      using object_key_present [of kvs "''spec''"] by simp
    show ?thesis
    proof (cases "map_of kvs ''candidates''")
      case None
      then have "''candidates'' \<notin> set (map fst kvs)"
        using object_key_present [of kvs "''candidates''"] by simp
      then have "read_fields (JObj kvs) = Inr (Inl (error_body ''Missing 'candidates' field'', 400))"
        using ks by (simp add: read_fields_def)
      moreover have "n = 5" using assms s None by (simp add: first_failing_check_def)
      ultimately show ?thesis
        by (simp add: calculate_distances_def calculate_distances_try_def p check_error_def)
    next
      case c: (Some candidates)
      then have kc: "''candidates'' \<in> set (map fst kvs)"
        using object_key_present [of kvs "''candidates''"] by simp
      have r: "read_fields (JObj kvs) = Inr (Inr (spec, candidates))"
        using ks kc s c by (simp add: read_fields_def)
      have n: "(if \<not> isinstance_str spec then Some 6
                         else if \<not> isinstance_list candidates then Some 7
                         else if items candidates = [] then Some 8
                         else if \<not> list_all isinstance_str (items candidates) then Some 9
                         else None) = Some n"
        using assms s c by (simp add: first_failing_check_def)
      then have "check_types spec candidates = Inl (error_body (check_error n), 400)"
        by (auto simp: check_types_def check_error_def split: if_splits)
      then show ?thesis
        by (simp add: calculate_distances_def calculate_distances_try_def p r)
    qed
  qed
qed

lemma checks_before_object:
  assumes "\<not> is_json request \<or> get_json request = Inr JNull"
    and "first_failing_check request = Some n"
  shows "calculate_distances g request = ((error_body (check_error n), 400), [])"
  using assms
  by (auto simp: first_failing_check_def calculate_distances_def calculate_distances_try_def
        parse_body_def check_error_def split: if_splits)

text \<open>
  Claim C4. The request with a JSON content type and the body \<^verbatim>\<open>5\<close> passes the first
  three checks and fails the fourth, since a number has no \<^verbatim>\<open>spec\<close> field. The
  handler does not answer it with 400: the test \<^verbatim>\<open>'spec' in data\<close> raises
  \<^verbatim>\<open>TypeError\<close> on the integer, and the outer \<^verbatim>\<open>except\<close> clause turns that into 500.
\<close>

theorem non_object_body_is_500:
  "first_failing_check \<lparr>is_json = True, get_json = Inr (JInt 5)\<rparr> = Some 4 \<and>
   calculate_distances g \<lparr>is_json = True, get_json = Inr (JInt 5)\<rparr> =
     ((error_body ''Internal server error: argument of type 'int' is not iterable'', 500), [])"
  by (simp add: first_failing_check_def calculate_distances_def calculate_distances_try_def
        parse_body_def read_fields_def)


section \<open>Lower case\<close>

lemma of_char_Y: "(of_char c :: nat) = 89 \<longleftrightarrow> c = CHR ''Y''"
proof
  assume "(of_char c :: nat) = 89"
  then have "(of_char c :: nat) = of_char (CHR ''Y'')" by simp
  then show "c = CHR ''Y''" by (simp only: of_char_eq_iff)
next
  assume "c = CHR ''Y''" then show "(of_char c :: nat) = 89" by simp
qed

lemma char_of_y:
  "(of_char c :: nat) + 32 < 256 \<Longrightarrow>
   char_of ((of_char c :: nat) + 32) = CHR ''y'' \<longleftrightarrow> (of_char c :: nat) = 89"
  by (simp add: char_of_eq_iff take_bit_nat_eq_self)

lemma lower_char_y:
  "(if 65 \<le> (of_char c :: nat) \<and> (of_char c :: nat) \<le> 90
    then char_of ((of_char c :: nat) + 32) else c) = CHR ''y''
   \<longleftrightarrow> c = CHR ''y'' \<or> c = CHR ''Y''"
proof (cases "65 \<le> (of_char c :: nat) \<and> (of_char c :: nat) \<le> 90")
  case True
  then have "(of_char c :: nat) + 32 < 256" by simp
  then have "char_of ((of_char c :: nat) + 32) = CHR ''y'' \<longleftrightarrow> c = CHR ''Y''"
    by (simp only: char_of_y of_char_Y)
  moreover have "c \<noteq> CHR ''y''" using True by auto
  ultimately show ?thesis using True by simp
next
  case False
  have "c \<noteq> CHR ''Y''" using False by auto
  moreover have "(if 65 \<le> (of_char c :: nat) \<and> (of_char c :: nat) \<le> 90
    then char_of ((of_char c :: nat) + 32) else c) = c"
    using False by (rule if_not_P)
  ultimately show ?thesis by simp
qed

lemma lower_is_y: "lower response = ''y'' \<longleftrightarrow> response = ''y'' \<or> response = ''Y''"
proof (cases response)
  case Nil
  then show ?thesis by (simp add: lower_def)
next
  case (Cons c cs)
  have "lower (c # cs) = ''y'' \<longleftrightarrow> cs = [] \<and>
    (if 65 \<le> (of_char c :: nat) \<and> (of_char c :: nat) \<le> 90
    then char_of ((of_char c :: nat) + 32) else c) = CHR ''y''"
    unfolding lower_def by (simp only: list.map list.inject map_is_Nil_conv conj_commute)
  then show ?thesis unfolding Cons lower_char_y by (simp only: list.inject) blast
qed


section \<open>Startup\<close>





lemma MODEL_DIR_app:
  "MODEL_DIR (cached_env answer) = ''/app/models/all-MiniLM-L6-v2''"
  "MODEL_DIR fresh_env = ''/app/models/all-MiniLM-L6-v2''"
  "MODEL_DIR offline_env = ''/app/models/all-MiniLM-L6-v2''"
  by (simp_all add: MODEL_DIR_def os_path_join_def MODEL_NAME_def cached_env_def fresh_env_def
        offline_env_def)



section \<open>Provisioning\<close>

lemma effects_append: "effects (xs @ ys) = effects xs @ effects ys"
  by (simp add: effects_def)

lemma fetch_and_save_no_path: "fst (fetch_and_save env) \<noteq> Inr (Some path)"
  by (simp add: fetch_and_save_def Let_def split: sum.splits option.splits)

lemma fetch_and_save_ok:
  assumes "SentenceTransformer env MODEL_HUGGINGFACE = Inr m" and "save m (MODEL_DIR env) = None"
  shows "fst (fetch_and_save env) = Inr None"
    and "effects (snd (fetch_and_save env)) = [Load MODEL_HUGGINGFACE, Save (MODEL_DIR env)]"
  using assms by (simp_all add: fetch_and_save_def Let_def effects_def)

lemma download_model_no_path: "fst (download_model env) \<noteq> Inr (Some path)"
proof -
  obtain r evs where f: "fetch_and_save env = (r, evs)" by (cases "fetch_and_save env")
  then have "r \<noteq> Inr (Some path)" using fetch_and_save_no_path [of env path] by simp
  then show ?thesis
    by (simp add: download_model_def Let_def f split: sum.splits option.splits)
qed

lemma download_model_skip:
  assumes "os_makedirs env (os_path_dirname (MODEL_DIR env)) = None"
    and "os_path_exists env (MODEL_DIR env)"
    and "input env ''Do you want to re-download? (y/n): '' = Inr response"
    and "lower response \<noteq> ''y''"
  shows "fst (download_model env) = Inr None"
    and "effects (snd (download_model env)) =
           [Makedirs (os_path_dirname (MODEL_DIR env)),
            Input ''Do you want to re-download? (y/n): '']"
  using assms by (simp_all add: download_model_def Let_def effects_def)

lemma download_model_fetch:
  assumes "os_makedirs env (os_path_dirname (MODEL_DIR env)) = None"
    and "\<not> os_path_exists env (MODEL_DIR env) \<or>
         (\<exists>response. input env ''Do you want to re-download? (y/n): '' = Inr response \<and>
            lower response = ''y'')"
    and "SentenceTransformer env MODEL_HUGGINGFACE = Inr m" and "save m (MODEL_DIR env) = None"
  shows "fst (download_model env) = Inr None"
    and "effects (snd (download_model env)) =
           Makedirs (os_path_dirname (MODEL_DIR env))
             # (if os_path_exists env (MODEL_DIR env)
                then [Input ''Do you want to re-download? (y/n): ''] else [])
             @ [Load MODEL_HUGGINGFACE, Save (MODEL_DIR env)]"
proof -
  obtain evs where f: "fetch_and_save env = (Inr None, evs)"
    and e: "effects evs = [Load MODEL_HUGGINGFACE, Save (MODEL_DIR env)]"
    using fetch_and_save_ok [OF assms(3,4)] by (cases "fetch_and_save env") simp
  show "fst (download_model env) = Inr None"
    using assms(1,2) by (auto simp: download_model_def Let_def f)
  show "effects (snd (download_model env)) =
           Makedirs (os_path_dirname (MODEL_DIR env))
             # (if os_path_exists env (MODEL_DIR env)
                then [Input ''Do you want to re-download? (y/n): ''] else [])
             @ [Load MODEL_HUGGINGFACE, Save (MODEL_DIR env)]"
    using assms(1,2) e by (auto simp: download_model_def Let_def f effects_append)
      (simp_all add: effects_def)
qed


text \<open>
  Claim C8, as stated, fails on the code. With a complete cache entry and the answer
  \<^verbatim>\<open>no\<close> the function returns \<^verbatim>\<open>None\<close>, not the path of the model; and with a
  complete cache entry and the answer \<^verbatim>\<open>yes\<close>, which is not the answer \<^verbatim>\<open>no\<close>,
  it fetches nothing either: only \<^verbatim>\<open>y\<close> and \<^verbatim>\<open>Y\<close> lead to a new download.
\<close>

theorem download_model_returns_no_path:
  "fst (download_model (cached_env ''no'')) = Inr None \<and>
   fst (download_model (cached_env ''no'')) \<noteq> Inr (Some (MODEL_DIR (cached_env ''no''))) \<and>
   fst (download_model (cached_env ''yes'')) = Inr None \<and>
   effects (snd (download_model (cached_env ''yes''))) =
     [Makedirs ''/app/models'', Input ''Do you want to re-download? (y/n): '']"
proof -
  have d: "os_path_dirname ''/app/models/all-MiniLM-L6-v2'' = ''/app/models''"
    by (simp add: os_path_dirname_def)
  have m: "os_makedirs (cached_env a) (os_path_dirname (MODEL_DIR (cached_env a))) = None" for a
    by (simp add: cached_env_def)
  have x: "os_path_exists (cached_env a) (MODEL_DIR (cached_env a))" for a
    by (simp add: cached_env_def)
  have i: "input (cached_env a) ''Do you want to re-download? (y/n): '' = Inr a" for a
    by (simp add: cached_env_def)
  have n: "lower ''no'' \<noteq> ''y''" by (simp add: lower_is_y)
  have y: "lower ''yes'' \<noteq> ''y''" by (simp add: lower_is_y)
  have 1: "fst (download_model (cached_env ''no'')) = Inr None"
    by (rule download_model_skip(1) [OF m x i n])
  have 2: "fst (download_model (cached_env ''yes'')) = Inr None"
    by (rule download_model_skip(1) [OF m x i y])
  have 3: "effects (snd (download_model (cached_env ''yes''))) =
     [Makedirs ''/app/models'', Input ''Do you want to re-download? (y/n): '']"
    using download_model_skip(2) [OF m x i y] by (simp add: MODEL_DIR_app d)
  show ?thesis using 1 2 3 by simp
qed

text \<open>
  Claim C8, amended. \<^verbatim>\<open>download_model\<close> never returns a path (it returns
  \<^verbatim>\<open>None\<close> or raises). After creating the parent directory, when a complete cache
  entry exists and the operator's answer is neither \<^verbatim>\<open>y\<close> nor \<^verbatim>\<open>Y\<close>, it only
  prompts: it fetches nothing and saves nothing. When the cache directory does not exist,
  or the operator answers \<^verbatim>\<open>y\<close> or \<^verbatim>\<open>Y\<close>, and the fetch and the save succeed, it
  loads the model from the registry identifier and saves it into the cache directory.
\<close>

theorem download_model_behaviour:
  "(\<forall>path. fst (download_model env) \<noteq> Inr (Some path)) \<and>
   (os_makedirs env (os_path_dirname (MODEL_DIR env)) = None \<and>
    os_path_exists env (MODEL_DIR env) \<and>
    os_path_exists env (os_path_join (MODEL_DIR env) ''config.json'') \<and>
    input env ''Do you want to re-download? (y/n): '' = Inr response \<and>
    response \<noteq> ''y'' \<and> response \<noteq> ''Y'' \<longrightarrow>
      fst (download_model env) = Inr None \<and>
      effects (snd (download_model env)) =
        [Makedirs (os_path_dirname (MODEL_DIR env)),
         Input ''Do you want to re-download? (y/n): '']) \<and>
   (os_makedirs env (os_path_dirname (MODEL_DIR env)) = None \<and>
    (\<not> os_path_exists env (MODEL_DIR env) \<or>
     input env ''Do you want to re-download? (y/n): '' = Inr ''y'' \<or>
     input env ''Do you want to re-download? (y/n): '' = Inr ''Y'') \<and>
    SentenceTransformer env MODEL_HUGGINGFACE = Inr m \<and> save m (MODEL_DIR env) = None \<longrightarrow>
      fst (download_model env) = Inr None \<and>
      effects (snd (download_model env)) =
        Makedirs (os_path_dirname (MODEL_DIR env))
          # (if os_path_exists env (MODEL_DIR env)
             then [Input ''Do you want to re-download? (y/n): ''] else [])
          @ [Load MODEL_HUGGINGFACE, Save (MODEL_DIR env)])"
proof (intro conjI impI allI)
  show "fst (download_model env) \<noteq> Inr (Some path)" for path
    by (rule download_model_no_path)
next
  assume a: "os_makedirs env (os_path_dirname (MODEL_DIR env)) = None \<and>
    os_path_exists env (MODEL_DIR env) \<and>
    os_path_exists env (os_path_join (MODEL_DIR env) ''config.json'') \<and>
    input env ''Do you want to re-download? (y/n): '' = Inr response \<and>
    response \<noteq> ''y'' \<and> response \<noteq> ''Y''"
  then have l: "lower response \<noteq> ''y''" by (simp add: lower_is_y)
  from a have 1: "os_makedirs env (os_path_dirname (MODEL_DIR env)) = None"
    and 2: "os_path_exists env (MODEL_DIR env)"
    and 3: "input env ''Do you want to re-download? (y/n): '' = Inr response" by simp_all
  show "fst (download_model env) = Inr None"
    by (rule download_model_skip(1) [OF 1 2 3 l])
  show "effects (snd (download_model env)) =
        [Makedirs (os_path_dirname (MODEL_DIR env)),
         Input ''Do you want to re-download? (y/n): '']"
    by (rule download_model_skip(2) [OF 1 2 3 l])
next
  assume a: "os_makedirs env (os_path_dirname (MODEL_DIR env)) = None \<and>
    (\<not> os_path_exists env (MODEL_DIR env) \<or>
     input env ''Do you want to re-download? (y/n): '' = Inr ''y'' \<or>
     input env ''Do you want to re-download? (y/n): '' = Inr ''Y'') \<and>
    SentenceTransformer env MODEL_HUGGINGFACE = Inr m \<and> save m (MODEL_DIR env) = None"
  then have 1: "os_makedirs env (os_path_dirname (MODEL_DIR env)) = None"
    and 3: "SentenceTransformer env MODEL_HUGGINGFACE = Inr m"
    and 4: "save m (MODEL_DIR env) = None" by simp_all
  have "lower ''y'' = ''y''" and "lower ''Y'' = ''y''" by (simp_all add: lower_is_y)
  with a have 2: "\<not> os_path_exists env (MODEL_DIR env) \<or>
         (\<exists>response. input env ''Do you want to re-download? (y/n): '' = Inr response \<and>
            lower response = ''y'')" by blast
  show "fst (download_model env) = Inr None"
    by (rule download_model_fetch(1) [OF 1 2 3 4])
  show "effects (snd (download_model env)) =
        Makedirs (os_path_dirname (MODEL_DIR env))
          # (if os_path_exists env (MODEL_DIR env)
             then [Input ''Do you want to re-download? (y/n): ''] else [])
          @ [Load MODEL_HUGGINGFACE, Save (MODEL_DIR env)]"
    by (rule download_model_fetch(2) [OF 1 2 3 4])
qed

theorem download_model_behaviour_witness:
  "fst (download_model (cached_env ''n'')) = Inr None \<and>
   effects (snd (download_model (cached_env ''n''))) =
     [Makedirs ''/app/models'', Input ''Do you want to re-download? (y/n): ''] \<and>
   fst (download_model (cached_env ''y'')) = Inr None \<and>
   effects (snd (download_model (cached_env ''y''))) =
     [Makedirs ''/app/models'', Input ''Do you want to re-download? (y/n): '',
      Load ''sentence-transformers/all-MiniLM-L6-v2'', Save ''/app/models/all-MiniLM-L6-v2''] \<and>
   fst (download_model fresh_env) = Inr None \<and>
   effects (snd (download_model fresh_env)) =
     [Makedirs ''/app/models'',
      Load ''sentence-transformers/all-MiniLM-L6-v2'', Save ''/app/models/all-MiniLM-L6-v2'']"
proof -
  have d: "os_path_dirname ''/app/models/all-MiniLM-L6-v2'' = ''/app/models''"
    by (simp add: os_path_dirname_def)
  have h: "MODEL_HUGGINGFACE = ''sentence-transformers/all-MiniLM-L6-v2''"
    by (simp add: MODEL_HUGGINGFACE_def MODEL_NAME_def)
  have n: "os_makedirs (cached_env ''n'') (os_path_dirname (MODEL_DIR (cached_env ''n''))) = None \<and>
    os_path_exists (cached_env ''n'') (MODEL_DIR (cached_env ''n'')) \<and>
    os_path_exists (cached_env ''n'') (os_path_join (MODEL_DIR (cached_env ''n'')) ''config.json'') \<and>
    input (cached_env ''n'') ''Do you want to re-download? (y/n): '' = Inr ''n'' \<and>
    ''n'' \<noteq> ''y'' \<and> ''n'' \<noteq> ''Y''"
    by (simp add: cached_env_def)
  have y: "os_makedirs (cached_env ''y'') (os_path_dirname (MODEL_DIR (cached_env ''y''))) = None \<and>
    (\<not> os_path_exists (cached_env ''y'') (MODEL_DIR (cached_env ''y'')) \<or>
     input (cached_env ''y'') ''Do you want to re-download? (y/n): '' = Inr ''y'' \<or>
     input (cached_env ''y'') ''Do you want to re-download? (y/n): '' = Inr ''Y'') \<and>
    SentenceTransformer (cached_env ''y'') MODEL_HUGGINGFACE = Inr stub_model \<and>
    save stub_model (MODEL_DIR (cached_env ''y'')) = None"
    by (simp add: cached_env_def stub_model_def)
  have f: "os_makedirs fresh_env (os_path_dirname (MODEL_DIR fresh_env)) = None \<and>
    (\<not> os_path_exists fresh_env (MODEL_DIR fresh_env) \<or>
     input fresh_env ''Do you want to re-download? (y/n): '' = Inr ''y'' \<or>
     input fresh_env ''Do you want to re-download? (y/n): '' = Inr ''Y'') \<and>
    SentenceTransformer fresh_env MODEL_HUGGINGFACE = Inr stub_model \<and>
    save stub_model (MODEL_DIR fresh_env) = None"
    by (simp add: fresh_env_def stub_model_def)
  have xy: "os_path_exists (cached_env ''y'') (MODEL_DIR (cached_env ''y''))"
    by (simp add: cached_env_def)
  have xf: "\<not> os_path_exists fresh_env (MODEL_DIR fresh_env)"
    by (simp add: fresh_env_def)
  have 1: "fst (download_model (cached_env ''n'')) = Inr None \<and>
      effects (snd (download_model (cached_env ''n''))) =
        [Makedirs (os_path_dirname (MODEL_DIR (cached_env ''n''))),
         Input ''Do you want to re-download? (y/n): '']"
    using download_model_behaviour [of "cached_env ''n''" "''n''"] n by blast
  have 2: "fst (download_model (cached_env ''y'')) = Inr None \<and>
      effects (snd (download_model (cached_env ''y''))) =
        Makedirs (os_path_dirname (MODEL_DIR (cached_env ''y'')))
          # (if os_path_exists (cached_env ''y'') (MODEL_DIR (cached_env ''y''))
             then [Input ''Do you want to re-download? (y/n): ''] else [])
          @ [Load MODEL_HUGGINGFACE, Save (MODEL_DIR (cached_env ''y''))]"
    using download_model_behaviour [of "cached_env ''y''" _ stub_model] y by blast
  have 3: "fst (download_model fresh_env) = Inr None \<and>
      effects (snd (download_model fresh_env)) =
        Makedirs (os_path_dirname (MODEL_DIR fresh_env))
          # (if os_path_exists fresh_env (MODEL_DIR fresh_env)
             then [Input ''Do you want to re-download? (y/n): ''] else [])
          @ [Load MODEL_HUGGINGFACE, Save (MODEL_DIR fresh_env)]"
    using download_model_behaviour [of fresh_env _ stub_model] f by blast
  show ?thesis
    using 1 2 3 xy xf by (simp add: MODEL_DIR_app d h)
qed

section \<open>The range of the distances\<close>

text \<open>
  The handler subtracts each similarity from 1 and does nothing else to it: it neither
  clamps nor rounds. So the returned distances lie between 0 and 2 exactly when the
  similarities that the library computed lie between -1 and 1. Whether they do is a
  matter of the floating-point arithmetic inside the library, which is outside the
  repository and outside this model.
\<close>

lemma distances_in_range_iff:
  assumes "encode (model g) [spec] = Inr S" and "encode (model g) candidates = Inr C"
    and "cosine_similarity g S C = Inr (row # rest)"
  shows "\<exists>distances.
           fst (compute_distances g spec candidates) = Inr distances \<and>
           (list_all (\<lambda>d. 0 \<le> d \<and> d \<le> 2) distances \<longleftrightarrow>
            list_all (\<lambda>s. - 1 \<le> s \<and> s \<le> 1) row)"
proof -
  have "list_all (\<lambda>d. 0 \<le> d \<and> d \<le> 2) (map (\<lambda>s. 1 - s) row) \<longleftrightarrow>
        list_all (\<lambda>s. - 1 \<le> s \<and> s \<le> 1) row"
    by (induction row) auto
  then show ?thesis
    by (simp add: compute_distances_ok [OF assms])
qed

end
